theory Spec2Isabelle
  imports Complex_Main
begin

section \<open>The backtest strategy of the two scripts\<close>

text \<open>
  The repository holds two scripts with the same backtrader strategy class,
  \<^verbatim>\<open>TestStrategy\<close>: \<^verbatim>\<open>cryptorebalancingdata.py\<close>, whose
  \<^verbatim>\<open>__init__\<close> sets \<^verbatim>\<open>self.MAX = 5\<close> and whose pyramiding guard is
  \<^verbatim>\<open>self.trade_count <= self.MAX\<close>, and the script headed
  \<^verbatim>\<open>MAX 2 vs 5 backtrader as bt.py\<close>, which takes \<^verbatim>\<open>MAX\<close> as a strategy
  parameter and guards with \<^verbatim>\<open>self.trade_count < self.MAX\<close>. Everything else in
  \<^verbatim>\<open>__init__\<close>, \<^verbatim>\<open>next\<close> and \<^verbatim>\<open>stop\<close> is the same text in both, so the
  model has one definition of each, indexed by the script.

  Python floats are modelled as \<^typ>\<open>real\<close>: arithmetic is exact, and the places where a
  float operation raises (division of a Python float by zero) or leaves the finite numbers
  (pandas and numpy division by zero) are explicit results of the model.
\<close>

datatype script = Fixed_MAX | Param_MAX

text \<open>
  \<open>IndexError\<close> and \<open>ZeroDivisionError\<close> are the Python exceptions the strategy can raise.
  \<open>NonFinite\<close> is no exception: it stands for a result that pandas or numpy computes as
  \<^verbatim>\<open>inf\<close> or \<^verbatim>\<open>nan\<close> (their division by zero warns and goes on), which has no
  value among the reals.
\<close>

datatype error = IndexError | ZeroDivisionError | NonFinite

subsection \<open>Data\<close>

text \<open>
  What \<^verbatim>\<open>next\<close> reads of the current bar: the three price lines at index 0 and the two
  indicator lines \<^verbatim>\<open>ExponentialMovingAverage(high, period=89)\<close> and
  \<^verbatim>\<open>ExponentialMovingAverage(low, period=89)\<close> at index 0. The indicators are computed
  by backtrader, which calls \<^verbatim>\<open>next\<close> only on bars where both are defined.
\<close>

record bar =
  datalow :: real
  datahigh :: real
  dataclose :: real
  ema_high :: real
  ema_low :: real

text \<open>
  What \<^verbatim>\<open>next\<close> reads of the broker: \<^verbatim>\<open>self.broker.getcash()\<close>,
  \<^verbatim>\<open>self.broker.getvalue()\<close>, \<^verbatim>\<open>self.position.size\<close> and
  \<^verbatim>\<open>self.position.price\<close>. The truth value of \<^verbatim>\<open>self.position\<close> is
  \<^verbatim>\<open>size != 0\<close>.
\<close>

record broker =
  getcash :: real
  getvalue :: real
  position_size :: real
  position_price :: real

text \<open>
  The attributes of the strategy object that \<^verbatim>\<open>next\<close> and the report use.
  The attribute \<^verbatim>\<open>self.MAX\<close> is the field \<open>MAX_trades\<close> (\<open>MAX\<close> is taken
  by the library's syntax for maxima).
\<close>

record strategy =
  trade_count :: int
  open_positions :: "real list"
  MAX_trades :: int
  equity_curve :: "real list"

text \<open>
  The order a bar issues, tagged as the log line before it is: \<^verbatim>\<open>BUY CREATE\<close> and
  \<^verbatim>\<open>BUY ADDITIONAL POSITION\<close> are followed by \<^verbatim>\<open>self.buy(size=size)\<close>,
  \<^verbatim>\<open>SELL CREATE\<close> by \<^verbatim>\<open>self.sell(size=self.position.size)\<close>.
\<close>

datatype intent = BuyCreate real | BuyAdditional real | SellCreate real

subsection \<open>\<^verbatim>\<open>TestStrategy.__init__\<close>\<close>

text \<open>
  The scripts pass an integer for \<^verbatim>\<open>MAX\<close> in every call
  (\<^verbatim>\<open>run_backtest(max_trades=5)\<close>, 3, 8, 13); the first script ignores any parameter.
\<close>

definition init_strategy :: "script \<Rightarrow> int \<Rightarrow> strategy" where
  "init_strategy v max_trades =
     \<lparr>trade_count = 0, open_positions = [],
      MAX_trades = (case v of Fixed_MAX \<Rightarrow> 5 | Param_MAX \<Rightarrow> max_trades),
      equity_curve = []\<rparr>"

subsection \<open>\<^verbatim>\<open>TestStrategy.next\<close>\<close>

definition entry_condition :: "bar \<Rightarrow> bool" where
  "entry_condition d = (datalow d > ema_high d)"

definition exit_condition :: "bar \<Rightarrow> broker \<Rightarrow> bool" where
  "exit_condition d b = (datahigh d < ema_low d \<and> datalow d \<le> position_price b)"

text \<open>The guard of the \<^verbatim>\<open>elif\<close> under the entry condition, as each script writes it.\<close>

definition add_guard :: "script \<Rightarrow> strategy \<Rightarrow> bool" where
  "add_guard v s =
     (case v of Fixed_MAX \<Rightarrow> trade_count s \<le> MAX_trades s | Param_MAX \<Rightarrow> trade_count s < MAX_trades s)"

text \<open>
  \<^verbatim>\<open>float(cash / price / self.MAX)\<close>: the two divisions run left to right and each
  raises \<^verbatim>\<open>ZeroDivisionError\<close> on a zero divisor.
\<close>

definition sizing :: "real \<Rightarrow> real \<Rightarrow> int \<Rightarrow> error + real" where
  "sizing cash price mx =
     (if price = 0 then Inl ZeroDivisionError
      else if mx = 0 then Inl ZeroDivisionError
      else Inr (cash / price / real_of_int mx))"

definition record_buy :: "strategy \<Rightarrow> real \<Rightarrow> strategy" where
  "record_buy s price =
     s\<lparr>open_positions := open_positions s @ [price], trade_count := trade_count s + 1\<rparr>"

definition strategy_next ::
  "script \<Rightarrow> strategy \<Rightarrow> bar \<Rightarrow> broker \<Rightarrow> error + (strategy \<times> intent option)" where
  "strategy_next v s0 d b =
     (let s = s0\<lparr>equity_curve := equity_curve s0 @ [getvalue b]\<rparr> in
      if entry_condition d then
        if position_size b = 0 then
          (case sizing (getcash b) (datalow d) (MAX_trades s) of
             Inl e \<Rightarrow> Inl e
           | Inr sz \<Rightarrow> Inr (record_buy s (datalow d), Some (BuyCreate sz)))
        else if add_guard v s then
          (case open_positions s of
             [] \<Rightarrow> Inl IndexError
           | _ # _ \<Rightarrow>
               if datalow d > last (open_positions s) then
                 (case sizing (getcash b) (dataclose d) (MAX_trades s) of
                    Inl e \<Rightarrow> Inl e
                  | Inr sz \<Rightarrow> Inr (record_buy s (dataclose d), Some (BuyAdditional sz)))
               else Inr (s, None))
        else Inr (s, None)
      else if exit_condition d b then
        if position_size b \<noteq> 0 then
          (case open_positions s of
             [] \<Rightarrow> Inl IndexError
           | _ # rest \<Rightarrow>
               Inr (s\<lparr>open_positions := rest, trade_count := trade_count s + 1\<rparr>,
                    Some (SellCreate (position_size b))))
        else Inr (s, None)
      else Inr (s, None))"

subsection \<open>\<^verbatim>\<open>TestStrategy.stop\<close>\<close>

text \<open>\<^verbatim>\<open>Series.cummax()\<close>: the running maximum, carried from left to right.\<close>

fun cummax_from :: "real \<Rightarrow> real list \<Rightarrow> real list" where
  "cummax_from m [] = []"
| "cummax_from m (x # xs) = max m x # cummax_from (max m x) xs"

definition cummax :: "real list \<Rightarrow> real list" where
  "cummax xs = (case xs of [] \<Rightarrow> [] | x # rest \<Rightarrow> x # cummax_from x rest)"

text \<open>
  \<^verbatim>\<open>equity_curve.iloc[0]\<close> raises \<^verbatim>\<open>IndexError\<close> on an empty curve. Dividing the
  series by a first sample of zero gives only \<^verbatim>\<open>inf\<close> and \<^verbatim>\<open>nan\<close> entries, and
  the drawdown of such a series is \<^verbatim>\<open>nan\<close> throughout. \<^verbatim>\<open>Series.min()\<close> of
  an empty series is \<^verbatim>\<open>nan\<close> as well. The result is the value stored in
  \<^verbatim>\<open>self.max_drawdown\<close>.
\<close>

definition stop :: "real list \<Rightarrow> error + real" where
  "stop curve =
     (case curve of
        [] \<Rightarrow> Inl IndexError
      | e0 # _ \<Rightarrow>
          if e0 = 0 then Inl NonFinite
          else
            let cumulative_returns = map (\<lambda>e. e / e0) curve;
                peak = cummax cumulative_returns;
                drawdown = map (\<lambda>(c, p). (c - p) / p) (zip cumulative_returns peak)
            in (case drawdown of
                  [] \<Rightarrow> Inl NonFinite
                | x # xs \<Rightarrow> Inr (fold min xs x * 100)))"

subsection \<open>The report of the main loop\<close>

text \<open>
  \<^verbatim>\<open>sum((current_price - entry_price) / entry_price * 100 for entry_price in
  strategy.open_positions)\<close>: Python's \<^verbatim>\<open>sum\<close> adds from the left, starting at 0.
  \<^verbatim>\<open>current_price\<close> is a numpy float, so a zero entry price gives \<^verbatim>\<open>inf\<close> or
  \<^verbatim>\<open>nan\<close> instead of raising.
\<close>

definition unrealized_profit :: "real \<Rightarrow> real list \<Rightarrow> error + real" where
  "unrealized_profit current_price entries =
     (if 0 \<in> set entries then Inl NonFinite
      else Inr (foldl (+) 0 (map (\<lambda>entry_price. (current_price - entry_price) / entry_price * 100)
                                 entries)))"

definition realized_profit_percent :: "real \<Rightarrow> real \<Rightarrow> real" where
  "realized_profit_percent final_value initial_value =
     (final_value - initial_value) / initial_value * 100"

subsection \<open>The bar loop\<close>

text \<open>
  \<^verbatim>\<open>cerebro.run()\<close> calls \<^verbatim>\<open>next\<close> once per bar, in order, and the broker fills
  the orders in between. The broker is backtrader's, not the repository's, so the loop
  takes it as a parameter: a broker state of any type \<open>'l\<close>, \<open>view\<close> for what the
  strategy reads of it on a bar, and \<open>fill\<close> for what the bar and the order issued on it
  do to it. An exception of \<^verbatim>\<open>next\<close> ends the run. The result is the strategy object,
  the broker state, and what each bar issued.
\<close>

fun cerebro_run ::
  "script \<Rightarrow> ('l \<Rightarrow> bar \<Rightarrow> broker) \<Rightarrow> ('l \<Rightarrow> bar \<Rightarrow> intent option \<Rightarrow> 'l) \<Rightarrow>
   strategy \<Rightarrow> 'l \<Rightarrow> bar list \<Rightarrow> error + (strategy \<times> 'l \<times> intent option list)" where
  "cerebro_run v view fill s l [] = Inr (s, l, [])"
| "cerebro_run v view fill s l (d # ds) =
     (case strategy_next v s d (view l d) of
        Inl e \<Rightarrow> Inl e
      | Inr (s', it) \<Rightarrow>
          (case cerebro_run v view fill s' (fill l d it) ds of
             Inl e \<Rightarrow> Inl e
           | Inr (s'', l'', tr) \<Rightarrow> Inr (s'', l'', it # tr)))"

text \<open>Counting what a run issued.\<close>

definition entries :: "intent option list \<Rightarrow> nat" where
  "entries tr = length (filter (\<lambda>it. case it of Some (BuyCreate _) \<Rightarrow> True | _ \<Rightarrow> False) tr)"

definition adds :: "intent option list \<Rightarrow> nat" where
  "adds tr = length (filter (\<lambda>it. case it of Some (BuyAdditional _) \<Rightarrow> True | _ \<Rightarrow> False) tr)"

definition exits :: "intent option list \<Rightarrow> nat" where
  "exits tr = length (filter (\<lambda>it. case it of Some (SellCreate _) \<Rightarrow> True | _ \<Rightarrow> False) tr)"

subsection \<open>A ledger for concrete runs\<close>

text \<open>
  Modelled from the spec: the Portfolio Ledger of section 4.2 and the equity sample of
  section 3, in place of backtrader's broker, which the repository does not contain.
  A buy at a reference price debits \<open>size * reference_price * (1 + commission_rate)\<close>
  and is skipped when cash is not positive; a sell credits
  \<open>size * current_price * (1 - commission_rate)\<close>, the current price being the bar's
  close; the position price is the average cost of the open size and zero when flat; the
  portfolio value is cash plus the position at the bar's close. The theorems about every
  run hold for any broker; the ledger supplies the concrete runs and what a filled sell
  leaves of the position.
\<close>

record ledger =
  cash :: real
  held :: real
  average_price :: real
  commission_rate :: real

text \<open>
  Modelled from the spec: what the strategy reads of the ledger; the portfolio value is
  cash plus the position's market value at the bar's close (section 3, EquityCurve).
\<close>

definition ledger_view :: "ledger \<Rightarrow> bar \<Rightarrow> broker" where
  "ledger_view l d =
     \<lparr>getcash = cash l, getvalue = cash l + held l * dataclose d,
      position_size = held l, position_price = average_price l\<rparr>"

text \<open>
  Modelled from the spec: \<open>buy\<close> of section 4.2. With no positive cash the buy is skipped
  (InsufficientCash, section 7); otherwise cash is debited by
  \<open>size * reference_price * (1 + commission_rate)\<close>.
\<close>

definition ledger_buy :: "ledger \<Rightarrow> real \<Rightarrow> real \<Rightarrow> ledger" where
  "ledger_buy l reference_price sz =
     (if cash l \<le> 0 then l
      else l\<lparr>cash := cash l - sz * reference_price * (1 + commission_rate l),
             held := held l + sz,
             average_price :=
               (if held l + sz = 0 then 0
                else (held l * average_price l + sz * reference_price) / (held l + sz))\<rparr>)"

text \<open>
  Modelled from the spec: \<open>sell\<close> of section 4.2, crediting
  \<open>size * current_price * (1 - commission_rate)\<close>.
\<close>

definition ledger_sell :: "ledger \<Rightarrow> real \<Rightarrow> real \<Rightarrow> ledger" where
  "ledger_sell l current_price sz =
     l\<lparr>cash := cash l + sz * current_price * (1 - commission_rate l),
       held := held l - sz,
       average_price := (if held l - sz = 0 then 0 else average_price l)\<rparr>"

text \<open>
  Modelled from the spec: the order of a bar applied to the ledger (section 4.5), an entry
  at the bar's low and an add at the bar's close as reference price (section 4.3), a sell
  at the bar's close.
\<close>

definition ledger_fill :: "ledger \<Rightarrow> bar \<Rightarrow> intent option \<Rightarrow> ledger" where
  "ledger_fill l d it =
     (case it of
        None \<Rightarrow> l
      | Some (BuyCreate sz) \<Rightarrow> ledger_buy l (datalow d) sz
      | Some (BuyAdditional sz) \<Rightarrow> ledger_buy l (dataclose d) sz
      | Some (SellCreate sz) \<Rightarrow> ledger_sell l (dataclose d) sz)"

text \<open>
  Modelled from the spec: a run starts from the configured initial cash and an empty
  position (section 4.5).
\<close>

definition ledger_init :: "real \<Rightarrow> real \<Rightarrow> ledger" where
  "ledger_init initial_value commission =
     \<lparr>cash = initial_value, held = 0, average_price = 0, commission_rate = commission\<rparr>"

subsection \<open>The drawdown as the specification words it\<close>

text \<open>
  Section 4.4: divide every sample by the first; the peak at an index is the maximum of the
  normalised curve up to that index; the drawdown at an index is
  \<open>(normalised - peak) / peak\<close>; the result is the least drawdown times 100.
\<close>

definition spec_normalized :: "real list \<Rightarrow> nat \<Rightarrow> real" where
  "spec_normalized curve i = curve ! i / curve ! 0"

definition spec_peak :: "real list \<Rightarrow> nat \<Rightarrow> real" where
  "spec_peak curve i = Max (spec_normalized curve ` {0..i})"

definition spec_drawdown :: "real list \<Rightarrow> nat \<Rightarrow> real" where
  "spec_drawdown curve i = (spec_normalized curve i - spec_peak curve i) / spec_peak curve i"

definition spec_max_drawdown_pct :: "real list \<Rightarrow> real" where
  "spec_max_drawdown_pct curve = Min (spec_drawdown curve ` {0..<length curve}) * 100"

section \<open>Properties of one bar\<close>

lemma sizing_Inr:
  "sizing c p m = Inr sz \<longleftrightarrow> p \<noteq> 0 \<and> m \<noteq> 0 \<and> sz = c / p / real_of_int m"
  by (auto simp: sizing_def)

subsection \<open>The size of a buy\<close>

text \<open>
  Claim C8. Every buy that \<^verbatim>\<open>next\<close> issues has the size
  \<open>cash / reference_price / MAX\<close>: an entry (issued only while no position is open)
  takes the bar's low as the reference price, a pyramiding add (issued only while a
  position is open) takes the bar's close. Both divisors are non-zero whenever the step
  returns, so the quotient is the one Python computes.
\<close>

theorem buy_size_formula:
  assumes "strategy_next v s d b = Inr (s', Some it)"
  shows "(\<forall>sz. it = BuyCreate sz \<longrightarrow>
            position_size b = 0 \<and> datalow d \<noteq> 0 \<and> MAX_trades s \<noteq> 0 \<and>
            sz = getcash b / datalow d / real_of_int (MAX_trades s)) \<and>
         (\<forall>sz. it = BuyAdditional sz \<longrightarrow>
            position_size b \<noteq> 0 \<and> dataclose d \<noteq> 0 \<and> MAX_trades s \<noteq> 0 \<and>
            sz = getcash b / dataclose d / real_of_int (MAX_trades s))"
  using assms
  by (auto simp: strategy_next_def Let_def sizing_Inr split: if_splits sum.splits list.splits)

theorem buy_size_formula_witness:
  "strategy_next Param_MAX (init_strategy Param_MAX 5)
     \<lparr>datalow = 10, datahigh = 12, dataclose = 11, ema_high = 5, ema_low = 4\<rparr>
     \<lparr>getcash = 100000, getvalue = 100000, position_size = 0, position_price = 0\<rparr>
   = Inr (\<lparr>trade_count = 1, open_positions = [10], MAX_trades = 5, equity_curve = [100000]\<rparr>,
          Some (BuyCreate 2000))
   \<and> (2000::real) = 100000 / 10 / real_of_int 5"
proof -
  have e: "strategy_next Param_MAX (init_strategy Param_MAX 5)
     \<lparr>datalow = 10, datahigh = 12, dataclose = 11, ema_high = 5, ema_low = 4\<rparr>
     \<lparr>getcash = 100000, getvalue = 100000, position_size = 0, position_price = 0\<rparr>
   = Inr (\<lparr>trade_count = 1, open_positions = [10], MAX_trades = 5, equity_curve = [100000]\<rparr>,
          Some (BuyCreate 2000))"
    by (simp add: strategy_next_def init_strategy_def entry_condition_def sizing_def
        record_buy_def)
  from buy_size_formula [OF e] show ?thesis using e by simp
qed

subsection \<open>No sell while flat\<close>

text \<open>
  Claim C10. While no position is open (\<open>position_size b = 0\<close>): if the position price the
  broker reports is zero, as backtrader's is for an empty position, the exit condition is
  false on every bar with a positive low; and whatever the price, a step that returns issues
  no sell, removes no lot record (the records are unchanged or have the bar's low appended)
  and does not lower the trade count. The exit condition reads \<^verbatim>\<open>self.position.price\<close>
  before \<^verbatim>\<open>if self.position\<close> is tested, and the test keeps the sell from the flat state.
\<close>

theorem flat_never_sells:
  assumes "position_size b = 0"
  shows "(position_price b = 0 \<and> 0 < datalow d \<longrightarrow> \<not> exit_condition d b) \<and>
         (\<forall>s' it. strategy_next v s d b = Inr (s', it) \<longrightarrow>
            (\<forall>sz. it \<noteq> Some (SellCreate sz)) \<and>
            (open_positions s' = open_positions s \<or>
             open_positions s' = open_positions s @ [datalow d]) \<and>
            trade_count s \<le> trade_count s')"
  using assms
  by (auto simp: strategy_next_def Let_def exit_condition_def record_buy_def
           split: if_splits sum.splits list.splits)

theorem flat_never_sells_witness:
  "position_size \<lparr>getcash = 500, getvalue = 500, position_size = 0, position_price = 0\<rparr> = 0 \<and>
   \<not> exit_condition \<lparr>datalow = 3, datahigh = 4, dataclose = 3, ema_high = 9, ema_low = 8\<rparr>
       \<lparr>getcash = 500, getvalue = 500, position_size = 0, position_price = 0\<rparr> \<and>
   strategy_next Fixed_MAX
     \<lparr>trade_count = 2, open_positions = [7], MAX_trades = 5, equity_curve = []\<rparr>
     \<lparr>datalow = 3, datahigh = 4, dataclose = 3, ema_high = 9, ema_low = 8\<rparr>
     \<lparr>getcash = 500, getvalue = 500, position_size = 0, position_price = 0\<rparr>
   = Inr (\<lparr>trade_count = 2, open_positions = [7], MAX_trades = 5, equity_curve = [500]\<rparr>, None)"
  using flat_never_sells [of "\<lparr>getcash = 500, getvalue = 500, position_size = 0, position_price = 0\<rparr>"
      "\<lparr>datalow = 3, datahigh = 4, dataclose = 3, ema_high = 9, ema_low = 8\<rparr>" Fixed_MAX
      "\<lparr>trade_count = 2, open_positions = [7], MAX_trades = 5, equity_curve = []\<rparr>"]
  by (simp add: strategy_next_def entry_condition_def exit_condition_def)

lemmas run_defs = strategy_next_def init_strategy_def entry_condition_def exit_condition_def
  sizing_def add_guard_def record_buy_def ledger_view_def ledger_init_def ledger_fill_def
  ledger_buy_def ledger_sell_def

text \<open>What one step does to the strategy object, by what it issued.\<close>

lemma next_None:
  assumes "strategy_next v s d b = Inr (s', None)"
  shows "s' = s\<lparr>equity_curve := equity_curve s @ [getvalue b]\<rparr>"
  using assms
  by (auto simp: strategy_next_def Let_def split: if_splits sum.splits list.splits)

lemma next_BuyCreate:
  assumes "strategy_next v s d b = Inr (s', Some (BuyCreate sz))"
  shows "s' = s\<lparr>equity_curve := equity_curve s @ [getvalue b],
               open_positions := open_positions s @ [datalow d],
               trade_count := trade_count s + 1\<rparr> \<and> datalow d \<noteq> 0 \<and> position_size b = 0"
  using assms
  by (auto simp: strategy_next_def Let_def record_buy_def sizing_Inr
           split: if_splits sum.splits list.splits)

lemma next_BuyAdditional:
  assumes "strategy_next v s d b = Inr (s', Some (BuyAdditional sz))"
  shows "s' = s\<lparr>equity_curve := equity_curve s @ [getvalue b],
               open_positions := open_positions s @ [dataclose d],
               trade_count := trade_count s + 1\<rparr> \<and> dataclose d \<noteq> 0 \<and>
         add_guard v s \<and> open_positions s \<noteq> [] \<and> position_size b \<noteq> 0"
  using assms
  by (auto simp: strategy_next_def Let_def record_buy_def sizing_Inr add_guard_def
           split: if_splits sum.splits list.splits script.splits)

lemma next_SellCreate:
  assumes "strategy_next v s d b = Inr (s', Some (SellCreate sz))"
  shows "s' = s\<lparr>equity_curve := equity_curve s @ [getvalue b],
               open_positions := tl (open_positions s),
               trade_count := trade_count s + 1\<rparr> \<and> open_positions s \<noteq> [] \<and>
         sz = position_size b \<and> position_size b \<noteq> 0"
  using assms
  by (auto simp: strategy_next_def Let_def split: if_splits sum.splits list.splits)

subsection \<open>Buying with nothing to spend\<close>

text \<open>
  Cash and position are readings of the broker; whether and how a run reaches a bar with
  nothing to spend is the broker's matter. What \<^verbatim>\<open>next\<close> does on such a bar is in the
  scripts.

  Claim C3, as stated, fails: \<^verbatim>\<open>next\<close> has no guard on the computed size. Called on
  a qualifying bar while flat, with the broker reporting zero cash, it computes the size 0,
  still calls \<^verbatim>\<open>self.buy(size=size)\<close>, records the bar's low as a lot and increments
  the trade count.
\<close>

theorem zero_cash_step_mutates:
  "strategy_next Fixed_MAX
     \<lparr>trade_count = 2, open_positions = [], MAX_trades = 5, equity_curve = [1000, 900]\<rparr>
     \<lparr>datalow = 10, datahigh = 12, dataclose = 11, ema_high = 5, ema_low = 4\<rparr>
     \<lparr>getcash = 0, getvalue = 0, position_size = 0, position_price = 0\<rparr>
   = Inr (\<lparr>trade_count = 3, open_positions = [10], MAX_trades = 5,
            equity_curve = [1000, 900, 0]\<rparr>,
          Some (BuyCreate 0))"
  by (simp add: strategy_next_def entry_condition_def sizing_def record_buy_def)

text \<open>
  Claim C3, amended. While no position is open, on a bar that meets the entry condition,
  with a non-zero low and a non-zero \<^verbatim>\<open>MAX\<close>, a size that comes out non-positive (zero
  cash reported by the broker, for one) changes nothing in what \<^verbatim>\<open>next\<close> does: the step
  returns without an exception, requests the buy with that size, appends the bar's low to
  the lot records and increments the trade count.
\<close>

theorem nonpositive_size_still_recorded:
  assumes "entry_condition d" "position_size b = 0" "datalow d \<noteq> 0" "MAX_trades s \<noteq> 0"
    and "getcash b / datalow d / real_of_int (MAX_trades s) \<le> 0"
  shows "strategy_next v s d b =
     Inr (s\<lparr>equity_curve := equity_curve s @ [getvalue b],
            open_positions := open_positions s @ [datalow d],
            trade_count := trade_count s + 1\<rparr>,
          Some (BuyCreate (getcash b / datalow d / real_of_int (MAX_trades s))))"
  using assms by (simp add: strategy_next_def Let_def sizing_def record_buy_def)

theorem nonpositive_size_still_recorded_witness:
  "entry_condition \<lparr>datalow = 10, datahigh = 12, dataclose = 11, ema_high = 5, ema_low = 4\<rparr> \<and>
   (0::real) / 10 / real_of_int 3 \<le> 0 \<and>
   strategy_next Param_MAX (init_strategy Param_MAX 3)
     \<lparr>datalow = 10, datahigh = 12, dataclose = 11, ema_high = 5, ema_low = 4\<rparr>
     \<lparr>getcash = 0, getvalue = 0, position_size = 0, position_price = 0\<rparr>
   = Inr (\<lparr>trade_count = 1, open_positions = [10], MAX_trades = 3, equity_curve = [0]\<rparr>,
          Some (BuyCreate 0))"
  using nonpositive_size_still_recorded [of
      "\<lparr>datalow = 10, datahigh = 12, dataclose = 11, ema_high = 5, ema_low = 4\<rparr>"
      "\<lparr>getcash = 0, getvalue = 0, position_size = 0, position_price = 0\<rparr>"
      "init_strategy Param_MAX 3" Param_MAX]
  by (simp add: init_strategy_def entry_condition_def)

subsection \<open>The exit\<close>

text \<open>
  Claim C2, as stated, fails in its second half: long or flat is whether the broker's
  position size is non-zero, not whether lot records remain. After an entry and two adds,
  one exit sells all 32 units; the position is then empty while two lot records remain.
\<close>

theorem flat_with_records_left:
  "cerebro_run Param_MAX ledger_view ledger_fill (init_strategy Param_MAX 5) (ledger_init 1000 0)
     [\<lparr>datalow = 10, datahigh = 12, dataclose = 11, ema_high = 5, ema_low = 4\<rparr>,
      \<lparr>datalow = 16, datahigh = 21, dataclose = 20, ema_high = 6, ema_low = 5\<rparr>,
      \<lparr>datalow = 21, datahigh = 33, dataclose = 32, ema_high = 6, ema_low = 5\<rparr>,
      \<lparr>datalow = 3, datahigh = 5, dataclose = 4, ema_high = 9, ema_low = 8\<rparr>]
   = Inr (\<lparr>trade_count = 4, open_positions = [20, 32], MAX_trades = 5,
            equity_curve = [1000, 1200, 1536, 640]\<rparr>,
          \<lparr>cash = 640, held = 0, average_price = 0, commission_rate = 0\<rparr>,
          [Some (BuyCreate 20), Some (BuyAdditional 8), Some (BuyAdditional 4),
           Some (SellCreate 32)])"
  by (simp add: run_defs)

text \<open>
  Claim C2, amended. When the entry condition is false, the exit condition holds, a
  position is open and there is at least one lot record, \<^verbatim>\<open>next\<close> issues one sell of the
  whole position size, removes the oldest lot record and no other, and increments the
  trade count. Filling a sell of the whole size leaves the ledger with an empty position,
  so the strategy is flat from then on, whatever lot records remain.
\<close>

theorem exit_sells_all_pops_oldest:
  assumes "\<not> entry_condition d" "exit_condition d b" "position_size b \<noteq> 0"
    and "open_positions s = p # rest"
  shows "strategy_next v s d b =
     Inr (s\<lparr>equity_curve := equity_curve s @ [getvalue b],
            open_positions := rest,
            trade_count := trade_count s + 1\<rparr>,
          Some (SellCreate (position_size b))) \<and>
     position_size
       (ledger_view (ledger_fill l d (Some (SellCreate (position_size (ledger_view l d))))) d')
     = 0"
  using assms
  by (simp add: strategy_next_def Let_def ledger_view_def ledger_fill_def ledger_sell_def)

theorem exit_sells_all_pops_oldest_witness:
  "\<not> entry_condition \<lparr>datalow = 3, datahigh = 5, dataclose = 4, ema_high = 9, ema_low = 8\<rparr> \<and>
   exit_condition \<lparr>datalow = 3, datahigh = 5, dataclose = 4, ema_high = 9, ema_low = 8\<rparr>
     \<lparr>getcash = 512, getvalue = 640, position_size = 32, position_price = 15\<rparr> \<and>
   strategy_next Param_MAX
     \<lparr>trade_count = 3, open_positions = [10, 20, 32], MAX_trades = 5, equity_curve = []\<rparr>
     \<lparr>datalow = 3, datahigh = 5, dataclose = 4, ema_high = 9, ema_low = 8\<rparr>
     \<lparr>getcash = 512, getvalue = 640, position_size = 32, position_price = 15\<rparr>
   = Inr (\<lparr>trade_count = 4, open_positions = [20, 32], MAX_trades = 5, equity_curve = [640]\<rparr>,
          Some (SellCreate 32))"
  using exit_sells_all_pops_oldest [of
      "\<lparr>datalow = 3, datahigh = 5, dataclose = 4, ema_high = 9, ema_low = 8\<rparr>"
      "\<lparr>getcash = 512, getvalue = 640, position_size = 32, position_price = 15\<rparr>"
      "\<lparr>trade_count = 3, open_positions = [10, 20, 32], MAX_trades = 5, equity_curve = []\<rparr>"
      10 "[20, 32]" Param_MAX]
  by (simp add: entry_condition_def exit_condition_def)

subsection \<open>The pyramiding guard\<close>

text \<open>
  In the script that takes \<^verbatim>\<open>MAX\<close> as a parameter, a step that returns while a position
  is open issues an add exactly when the bar's low is above the EMA of the highs, the trade
  count is below \<^verbatim>\<open>MAX\<close>, and the low is above the last recorded entry price.
\<close>

lemma param_add_iff:
  assumes "position_size b \<noteq> 0" "strategy_next Param_MAX s d b = Inr (s', it)"
  shows "(\<exists>sz. it = Some (BuyAdditional sz)) \<longleftrightarrow>
         entry_condition d \<and> trade_count s < MAX_trades s \<and>
         datalow d > last (open_positions s)"
  using assms
  by (auto simp: strategy_next_def Let_def add_guard_def
           split: if_splits sum.splits list.splits)

lemma param_script_stops_at_max:
  "cerebro_run Param_MAX ledger_view ledger_fill (init_strategy Param_MAX 5) (ledger_init 100000 0)
     [\<lparr>datalow = 10, datahigh = 12, dataclose = 11, ema_high = 5, ema_low = 4\<rparr>,
      \<lparr>datalow = 11, datahigh = 17, dataclose = 16, ema_high = 5, ema_low = 4\<rparr>,
      \<lparr>datalow = 17, datahigh = 21, dataclose = 20, ema_high = 5, ema_low = 4\<rparr>,
      \<lparr>datalow = 21, datahigh = 33, dataclose = 32, ema_high = 5, ema_low = 4\<rparr>,
      \<lparr>datalow = 33, datahigh = 65, dataclose = 64, ema_high = 5, ema_low = 4\<rparr>,
      \<lparr>datalow = 65, datahigh = 130, dataclose = 128, ema_high = 5, ema_low = 4\<rparr>]
   = Inr (\<lparr>trade_count = 5, open_positions = [10, 16, 20, 32, 64], MAX_trades = 5,
            equity_curve = [100000, 112000, 124000, 167680, 294400, 556032]\<rparr>,
          \<lparr>cash = 32768, held = 4088, average_price = 8404 / 511, commission_rate = 0\<rparr>,
          [Some (BuyCreate 2000), Some (BuyAdditional 1000), Some (BuyAdditional 640),
           Some (BuyAdditional 320), Some (BuyAdditional 128), None])"
  by (simp add: run_defs)

text \<open>
  Claim C1 fails on \<^verbatim>\<open>cryptorebalancingdata.py\<close>, whose guard is
  \<^verbatim>\<open>self.trade_count <= self.MAX\<close>: on six rising bars the sixth, reached with a trade
  count of 5 and \<^verbatim>\<open>MAX = 5\<close>, still buys an additional lot, and the count ends at 6. The
  other script, on the same bars, issues nothing on the sixth.
\<close>

theorem fixed_script_adds_at_max:
  "cerebro_run Fixed_MAX ledger_view ledger_fill (init_strategy Fixed_MAX 5) (ledger_init 100000 0)
     [\<lparr>datalow = 10, datahigh = 12, dataclose = 11, ema_high = 5, ema_low = 4\<rparr>,
      \<lparr>datalow = 11, datahigh = 17, dataclose = 16, ema_high = 5, ema_low = 4\<rparr>,
      \<lparr>datalow = 17, datahigh = 21, dataclose = 20, ema_high = 5, ema_low = 4\<rparr>,
      \<lparr>datalow = 21, datahigh = 33, dataclose = 32, ema_high = 5, ema_low = 4\<rparr>,
      \<lparr>datalow = 33, datahigh = 65, dataclose = 64, ema_high = 5, ema_low = 4\<rparr>,
      \<lparr>datalow = 65, datahigh = 130, dataclose = 128, ema_high = 5, ema_low = 4\<rparr>]
   = Inr (\<lparr>trade_count = 6, open_positions = [10, 16, 20, 32, 64, 128], MAX_trades = 5,
            equity_curve = [100000, 112000, 124000, 167680, 294400, 556032]\<rparr>,
          \<lparr>cash = 131072 / 5, held = 20696 / 5, average_price = 46116 / 2587,
            commission_rate = 0\<rparr>,
          [Some (BuyCreate 2000), Some (BuyAdditional 1000), Some (BuyAdditional 640),
           Some (BuyAdditional 320), Some (BuyAdditional 128), Some (BuyAdditional (256 / 5))])"
  by (simp add: run_defs)

section \<open>Properties of a run\<close>

lemma entries_simps [simp]:
  "entries [] = 0"
  "entries (None # tr) = entries tr"
  "entries (Some (BuyCreate sz) # tr) = Suc (entries tr)"
  "entries (Some (BuyAdditional sz) # tr) = entries tr"
  "entries (Some (SellCreate sz) # tr) = entries tr"
  by (simp_all add: entries_def)

lemma adds_simps [simp]:
  "adds [] = 0"
  "adds (None # tr) = adds tr"
  "adds (Some (BuyCreate sz) # tr) = adds tr"
  "adds (Some (BuyAdditional sz) # tr) = Suc (adds tr)"
  "adds (Some (SellCreate sz) # tr) = adds tr"
  by (simp_all add: adds_def)

lemma exits_simps [simp]:
  "exits [] = 0"
  "exits (None # tr) = exits tr"
  "exits (Some (BuyCreate sz) # tr) = exits tr"
  "exits (Some (BuyAdditional sz) # tr) = exits tr"
  "exits (Some (SellCreate sz) # tr) = Suc (exits tr)"
  by (simp_all add: exits_def)
lemma cerebro_run_Cons_Inr:
  assumes "cerebro_run v view fill s l (d # ds) = Inr (s', l', tr)"
  obtains s1 it tr1 where "strategy_next v s d (view l d) = Inr (s1, it)"
    and "cerebro_run v view fill s1 (fill l d it) ds = Inr (s', l', tr1)"
    and "tr = it # tr1"
  using assms by (auto split: sum.splits prod.splits)

lemma run_trade_count:
  "cerebro_run v view fill s l ds = Inr (s', l', tr) \<Longrightarrow>
   trade_count s' = trade_count s + int (entries tr + adds tr + exits tr) \<and>
   MAX_trades s' = MAX_trades s"
proof (induction ds arbitrary: s l tr)
  case Nil
  then show ?case by simp
next
  case (Cons d ds)
  from Cons.prems obtain s1 it tr1 where
    st: "strategy_next v s d (view l d) = Inr (s1, it)" and
    rn: "cerebro_run v view fill s1 (fill l d it) ds = Inr (s', l', tr1)" and
    tr: "tr = it # tr1"
    by (rule cerebro_run_Cons_Inr)
  note ih = Cons.IH [OF rn]
  show ?case
  proof (cases it)
    case None
    with st ih tr show ?thesis by (auto dest: next_None)
  next
    case (Some i)
    with st ih tr show ?thesis
      by (cases i) (auto dest: next_BuyCreate next_BuyAdditional next_SellCreate)
  qed
qed

lemma run_adds_bound:
  "cerebro_run Param_MAX view fill s l ds = Inr (s', l', tr) \<Longrightarrow>
   int (adds tr) \<le> max 0 (MAX_trades s - trade_count s)"
proof (induction ds arbitrary: s l tr)
  case Nil
  then show ?case by simp
next
  case (Cons d ds)
  from Cons.prems obtain s1 it tr1 where
    st: "strategy_next Param_MAX s d (view l d) = Inr (s1, it)" and
    rn: "cerebro_run Param_MAX view fill s1 (fill l d it) ds = Inr (s', l', tr1)" and
    tr: "tr = it # tr1"
    by (rule cerebro_run_Cons_Inr)
  note ih = Cons.IH [OF rn]
  show ?case
  proof (cases it)
    case None
    with st ih tr show ?thesis by (auto dest: next_None)
  next
    case (Some i)
    with st ih tr show ?thesis
      by (cases i)
         (auto dest!: next_BuyCreate next_BuyAdditional next_SellCreate simp: add_guard_def)
  qed
qed

lemma run_adds_bound_from_empty:
  "cerebro_run Param_MAX view fill s l ds = Inr (s', l', tr) \<Longrightarrow>
   open_positions s = [] \<Longrightarrow> 0 \<le> trade_count s \<Longrightarrow>
   int (adds tr) \<le> max 0 (MAX_trades s - 1)"
proof (induction ds arbitrary: s l tr)
  case Nil
  then show ?case by simp
next
  case (Cons d ds)
  from Cons.prems(1) obtain s1 it tr1 where
    st: "strategy_next Param_MAX s d (view l d) = Inr (s1, it)" and
    rn: "cerebro_run Param_MAX view fill s1 (fill l d it) ds = Inr (s', l', tr1)" and
    tr: "tr = it # tr1"
    by (rule cerebro_run_Cons_Inr)
  show ?case
  proof (cases it)
    case None
    with st have "s1 = s\<lparr>equity_curve := equity_curve s @ [getvalue (view l d)]\<rparr>"
      by (auto dest: next_None)
    with Cons.IH [OF rn] Cons.prems(2,3) tr None show ?thesis by simp
  next
    case (Some i)
    show ?thesis
    proof (cases i)
      case (BuyCreate sz)
      with st Some have s1: "trade_count s1 = trade_count s + 1" "MAX_trades s1 = MAX_trades s"
        by (auto dest: next_BuyCreate)
      from run_adds_bound [OF rn] s1 Cons.prems(3) tr Some BuyCreate show ?thesis by simp
    next
      case (BuyAdditional sz)
      with st Some Cons.prems(2) show ?thesis by (auto dest: next_BuyAdditional)
    next
      case (SellCreate sz)
      with st Some Cons.prems(2) show ?thesis by (auto dest: next_SellCreate)
    qed
  qed
qed

subsection \<open>The trade count\<close>

text \<open>
  Claim C6, as stated, fails: an entry from the flat state is not capped by \<^verbatim>\<open>MAX\<close>.
  With \<^verbatim>\<open>MAX = 1\<close>, two full cycles of one buy and one sell end with a trade count of 4,
  above \<^verbatim>\<open>MAX\<close> plus the two exits.
\<close>

theorem two_cycles_exceed_bound:
  "cerebro_run Param_MAX ledger_view ledger_fill (init_strategy Param_MAX 1) (ledger_init 100 0)
     [\<lparr>datalow = 10, datahigh = 12, dataclose = 11, ema_high = 5, ema_low = 4\<rparr>,
      \<lparr>datalow = 3, datahigh = 5, dataclose = 4, ema_high = 9, ema_low = 8\<rparr>,
      \<lparr>datalow = 10, datahigh = 12, dataclose = 11, ema_high = 5, ema_low = 4\<rparr>,
      \<lparr>datalow = 3, datahigh = 5, dataclose = 5, ema_high = 9, ema_low = 8\<rparr>]
   = Inr (\<lparr>trade_count = 4, open_positions = [], MAX_trades = 1,
            equity_curve = [100, 40, 40, 20]\<rparr>,
          \<lparr>cash = 20, held = 0, average_price = 0, commission_rate = 0\<rparr>,
          [Some (BuyCreate 10), Some (SellCreate 10), Some (BuyCreate 4), Some (SellCreate 4)])
   \<and> \<not> trade_count \<lparr>trade_count = 4, open_positions = [], MAX_trades = 1,
                      equity_curve = [100, 40, 40, 20]\<rparr>
        \<le> 1 + int (exits [Some (BuyCreate 10), Some (SellCreate 10), Some (BuyCreate 4),
                           Some (SellCreate 4)])"
  by (simp add: run_defs)

text \<open>
  Claim C6, amended, for the script that takes \<^verbatim>\<open>MAX\<close> as a parameter, a positive
  \<^verbatim>\<open>MAX\<close> and any broker: at the end of a run the trade count is the number of entries
  from flat plus the number of pyramiding adds plus the number of exits; the adds are fewer
  than \<^verbatim>\<open>MAX\<close>; so the trade count stays below \<^verbatim>\<open>MAX\<close> plus one trade per entry from
  flat and one per exit.
\<close>

theorem trade_count_bound:
  assumes "0 < max_trades"
    and "cerebro_run Param_MAX view fill (init_strategy Param_MAX max_trades) l ds = Inr (s, l', tr)"
  shows "trade_count s = int (entries tr + adds tr + exits tr) \<and>
         int (adds tr) < max_trades \<and>
         trade_count s < max_trades + int (entries tr) + int (exits tr)"
proof -
  have tc: "trade_count s = int (entries tr + adds tr + exits tr)"
    using run_trade_count [OF assms(2)] by (simp add: init_strategy_def)
  have "int (adds tr) \<le> max 0 (max_trades - 1)"
    using run_adds_bound_from_empty [OF assms(2)] by (simp add: init_strategy_def)
  with assms(1) have "int (adds tr) < max_trades" by simp
  with tc show ?thesis by simp
qed

theorem trade_count_bound_witness:
  "(0::int) < 1 \<and>
   cerebro_run Param_MAX ledger_view ledger_fill (init_strategy Param_MAX 1) (ledger_init 100 0)
     [\<lparr>datalow = 10, datahigh = 12, dataclose = 11, ema_high = 5, ema_low = 4\<rparr>,
      \<lparr>datalow = 3, datahigh = 5, dataclose = 4, ema_high = 9, ema_low = 8\<rparr>,
      \<lparr>datalow = 10, datahigh = 12, dataclose = 11, ema_high = 5, ema_low = 4\<rparr>]
   = Inr (\<lparr>trade_count = 3, open_positions = [10], MAX_trades = 1,
            equity_curve = [100, 40, 40]\<rparr>,
          \<lparr>cash = 0, held = 4, average_price = 10, commission_rate = 0\<rparr>,
          [Some (BuyCreate 10), Some (SellCreate 10), Some (BuyCreate 4)])
   \<and> (3::int) < 1 + int 2 + int 1"
proof -
  have r: "cerebro_run Param_MAX ledger_view ledger_fill (init_strategy Param_MAX 1) (ledger_init 100 0)
     [\<lparr>datalow = 10, datahigh = 12, dataclose = 11, ema_high = 5, ema_low = 4\<rparr>,
      \<lparr>datalow = 3, datahigh = 5, dataclose = 4, ema_high = 9, ema_low = 8\<rparr>,
      \<lparr>datalow = 10, datahigh = 12, dataclose = 11, ema_high = 5, ema_low = 4\<rparr>]
   = Inr (\<lparr>trade_count = 3, open_positions = [10], MAX_trades = 1,
            equity_curve = [100, 40, 40]\<rparr>,
          \<lparr>cash = 0, held = 4, average_price = 10, commission_rate = 0\<rparr>,
          [Some (BuyCreate 10), Some (SellCreate 10), Some (BuyCreate 4)])"
    by (simp add: run_defs)
  have h: "(0::int) < 1" by simp
  from trade_count_bound [OF h r] r show ?thesis by simp
qed

subsection \<open>The unrealized profit\<close>

lemma foldl_add_sum_list: "foldl (+) a xs = a + sum_list (xs :: real list)"
  by (induction xs arbitrary: a) simp_all

lemma unrealized_profit_nonzero:
  "0 \<notin> set es \<Longrightarrow>
   unrealized_profit p es = Inr (\<Sum>e\<leftarrow>es. (p - e) / e * 100)"
  by (simp add: unrealized_profit_def foldl_add_sum_list)

lemma next_keeps_nonzero:
  assumes "strategy_next v s d b = Inr (s', it)" "0 \<notin> set (open_positions s)"
  shows "0 \<notin> set (open_positions s')"
proof (cases it)
  case None
  with assms show ?thesis by (auto dest: next_None)
next
  case (Some i)
  with assms show ?thesis
    by (cases i) (auto dest!: next_BuyCreate next_BuyAdditional next_SellCreate
                       dest: list.set_sel(2))
qed

lemma run_keeps_nonzero:
  "cerebro_run v view fill s l ds = Inr (s', l', tr) \<Longrightarrow> 0 \<notin> set (open_positions s) \<Longrightarrow>
   0 \<notin> set (open_positions s')"
proof (induction ds arbitrary: s l tr)
  case Nil
  then show ?case by simp
next
  case (Cons d ds)
  from Cons.prems(1) obtain s1 it tr1 where
    st: "strategy_next v s d (view l d) = Inr (s1, it)" and
    rn: "cerebro_run v view fill s1 (fill l d it) ds = Inr (s', l', tr1)"
    by (rule cerebro_run_Cons_Inr)
  from next_keeps_nonzero [OF st Cons.prems(2)] Cons.IH [OF rn] show ?case by blast
qed

text \<open>
  Claim C7. At the end of any run from a fresh strategy object, the reported unrealized
  profit is the sum, over the entry prices still recorded in \<^verbatim>\<open>open_positions\<close>, of
  \<open>(current_price - entry_price) / entry_price * 100\<close>: one percentage per record, with no
  weight for the size of the lot. No recorded entry price is zero, so the sum is finite.
\<close>

theorem unrealized_profit_unweighted_sum:
  assumes "cerebro_run v view fill (init_strategy v max_trades) l ds = Inr (s, l', tr)"
  shows "unrealized_profit current_price (open_positions s) =
         Inr (\<Sum>entry_price\<leftarrow>open_positions s. (current_price - entry_price) / entry_price * 100)"
proof -
  have "0 \<notin> set (open_positions s)"
    using run_keeps_nonzero [OF assms] by (simp add: init_strategy_def)
  then show ?thesis by (rule unrealized_profit_nonzero)
qed

theorem unrealized_profit_unweighted_sum_witness:
  "cerebro_run Param_MAX ledger_view ledger_fill (init_strategy Param_MAX 5) (ledger_init 1000 0)
     [\<lparr>datalow = 10, datahigh = 12, dataclose = 11, ema_high = 5, ema_low = 4\<rparr>,
      \<lparr>datalow = 16, datahigh = 21, dataclose = 20, ema_high = 6, ema_low = 5\<rparr>]
   = Inr (\<lparr>trade_count = 2, open_positions = [10, 20], MAX_trades = 5,
            equity_curve = [1000, 1200]\<rparr>,
          \<lparr>cash = 640, held = 28, average_price = 90 / 7, commission_rate = 0\<rparr>,
          [Some (BuyCreate 20), Some (BuyAdditional 8)])
   \<and> unrealized_profit 20 [10, 20] = Inr 100"
proof -
  have r: "cerebro_run Param_MAX ledger_view ledger_fill (init_strategy Param_MAX 5) (ledger_init 1000 0)
     [\<lparr>datalow = 10, datahigh = 12, dataclose = 11, ema_high = 5, ema_low = 4\<rparr>,
      \<lparr>datalow = 16, datahigh = 21, dataclose = 20, ema_high = 6, ema_low = 5\<rparr>]
   = Inr (\<lparr>trade_count = 2, open_positions = [10, 20], MAX_trades = 5,
            equity_curve = [1000, 1200]\<rparr>,
          \<lparr>cash = 640, held = 28, average_price = 90 / 7, commission_rate = 0\<rparr>,
          [Some (BuyCreate 20), Some (BuyAdditional 8)])"
    by (simp add: run_defs)
  from unrealized_profit_unweighted_sum [OF r, of 20] r show ?thesis by simp
qed

subsection \<open>Records that outlive the position\<close>

text \<open>
  Claim C9. A step that issues a sell sells the whole position size and removes exactly
  one entry price, the first. And there is a run in which this leaves records behind: after
  an entry and an add the position holds 600 units under two records; the next bar sells
  all 600, the position is empty, the record 80 remains, and the unrealized profit at the
  last close of 32 still counts it, as -60 percent.
\<close>

theorem sell_pops_one_record_only:
  assumes "strategy_next v s d b = Inr (s', Some (SellCreate sz))"
  shows "sz = position_size b \<and> open_positions s \<noteq> [] \<and>
         open_positions s' = tl (open_positions s) \<and>
         length (open_positions s') + 1 = length (open_positions s) \<and>
         cerebro_run Fixed_MAX ledger_view ledger_fill (init_strategy Fixed_MAX 5)
           (ledger_init 100000 0)
           [\<lparr>datalow = 50, datahigh = 55, dataclose = 52, ema_high = 40, ema_low = 38\<rparr>,
            \<lparr>datalow = 60, datahigh = 82, dataclose = 80, ema_high = 41, ema_low = 39\<rparr>]
         = Inr (\<lparr>trade_count = 2, open_positions = [50, 80], MAX_trades = 5,
                  equity_curve = [100000, 112000]\<rparr>,
                \<lparr>cash = 64000, held = 600, average_price = 60, commission_rate = 0\<rparr>,
                [Some (BuyCreate 400), Some (BuyAdditional 200)]) \<and>
         cerebro_run Fixed_MAX ledger_view ledger_fill (init_strategy Fixed_MAX 5)
           (ledger_init 100000 0)
           [\<lparr>datalow = 50, datahigh = 55, dataclose = 52, ema_high = 40, ema_low = 38\<rparr>,
            \<lparr>datalow = 60, datahigh = 82, dataclose = 80, ema_high = 41, ema_low = 39\<rparr>,
            \<lparr>datalow = 30, datahigh = 35, dataclose = 32, ema_high = 45, ema_low = 42\<rparr>]
         = Inr (\<lparr>trade_count = 3, open_positions = [80], MAX_trades = 5,
                  equity_curve = [100000, 112000, 83200]\<rparr>,
                \<lparr>cash = 83200, held = 0, average_price = 0, commission_rate = 0\<rparr>,
                [Some (BuyCreate 400), Some (BuyAdditional 200), Some (SellCreate 600)]) \<and>
         unrealized_profit 32 [80] = Inr (- 60)"
proof -
  from next_SellCreate [OF assms]
  have "sz = position_size b \<and> open_positions s \<noteq> [] \<and>
        open_positions s' = tl (open_positions s) \<and>
        length (open_positions s') + 1 = length (open_positions s)"
    by (cases "open_positions s") auto
  moreover have "cerebro_run Fixed_MAX ledger_view ledger_fill (init_strategy Fixed_MAX 5)
           (ledger_init 100000 0)
           [\<lparr>datalow = 50, datahigh = 55, dataclose = 52, ema_high = 40, ema_low = 38\<rparr>,
            \<lparr>datalow = 60, datahigh = 82, dataclose = 80, ema_high = 41, ema_low = 39\<rparr>]
         = Inr (\<lparr>trade_count = 2, open_positions = [50, 80], MAX_trades = 5,
                  equity_curve = [100000, 112000]\<rparr>,
                \<lparr>cash = 64000, held = 600, average_price = 60, commission_rate = 0\<rparr>,
                [Some (BuyCreate 400), Some (BuyAdditional 200)])"
    by (simp add: run_defs)
  moreover have "cerebro_run Fixed_MAX ledger_view ledger_fill (init_strategy Fixed_MAX 5)
           (ledger_init 100000 0)
           [\<lparr>datalow = 50, datahigh = 55, dataclose = 52, ema_high = 40, ema_low = 38\<rparr>,
            \<lparr>datalow = 60, datahigh = 82, dataclose = 80, ema_high = 41, ema_low = 39\<rparr>,
            \<lparr>datalow = 30, datahigh = 35, dataclose = 32, ema_high = 45, ema_low = 42\<rparr>]
         = Inr (\<lparr>trade_count = 3, open_positions = [80], MAX_trades = 5,
                  equity_curve = [100000, 112000, 83200]\<rparr>,
                \<lparr>cash = 83200, held = 0, average_price = 0, commission_rate = 0\<rparr>,
                [Some (BuyCreate 400), Some (BuyAdditional 200), Some (SellCreate 600)])"
    by (simp add: run_defs)
  moreover have "unrealized_profit 32 [80] = Inr (- 60)"
    by (simp add: unrealized_profit_def)
  ultimately show ?thesis by blast
qed

theorem sell_pops_one_record_only_witness:
  "strategy_next Fixed_MAX
     \<lparr>trade_count = 2, open_positions = [50, 80], MAX_trades = 5, equity_curve = [100000, 112000]\<rparr>
     \<lparr>datalow = 30, datahigh = 35, dataclose = 32, ema_high = 45, ema_low = 42\<rparr>
     \<lparr>getcash = 64000, getvalue = 83200, position_size = 600, position_price = 60\<rparr>
   = Inr (\<lparr>trade_count = 3, open_positions = [80], MAX_trades = 5,
            equity_curve = [100000, 112000, 83200]\<rparr>, Some (SellCreate 600)) \<and>
   length [80::real] + 1 = length [50, 80::real]"
proof -
  have e: "strategy_next Fixed_MAX
     \<lparr>trade_count = 2, open_positions = [50, 80], MAX_trades = 5, equity_curve = [100000, 112000]\<rparr>
     \<lparr>datalow = 30, datahigh = 35, dataclose = 32, ema_high = 45, ema_low = 42\<rparr>
     \<lparr>getcash = 64000, getvalue = 83200, position_size = 600, position_price = 60\<rparr>
   = Inr (\<lparr>trade_count = 3, open_positions = [80], MAX_trades = 5,
            equity_curve = [100000, 112000, 83200]\<rparr>, Some (SellCreate 600))"
    by (simp add: run_defs)
  from sell_pops_one_record_only [OF e] e show ?thesis by simp
qed

section \<open>The maximum drawdown\<close>

lemma length_cummax_from [simp]: "length (cummax_from m xs) = length xs"
  by (induction xs arbitrary: m) simp_all

lemma length_cummax [simp]: "length (cummax xs) = length xs"
  by (simp add: cummax_def split: list.splits)

lemma Max_insert_max:
  "finite A \<Longrightarrow> Max (insert (max a b) A) = Max (insert (a::real) (insert b A))"
  by (cases "A = {}") (simp_all add: max.assoc)

lemma cummax_from_nth:
  "i < length xs \<Longrightarrow> cummax_from m xs ! i = Max (insert m (set (take (Suc i) xs)))"
proof (induction xs arbitrary: m i)
  case Nil
  then show ?case by simp
next
  case (Cons x xs)
  show ?case
  proof (cases i)
    case 0
    then show ?thesis by (simp add: max.commute)
  next
    case (Suc j)
    with Cons.prems have j: "j < length xs" by simp
    have "Max (insert (max m x) (set (take (Suc j) xs))) =
          Max (insert m (insert x (set (take (Suc j) xs))))"
      by (rule Max_insert_max) simp
    with Cons.IH [OF j, of "max m x"] Suc show ?thesis by simp
  qed
qed

lemma cummax_nth:
  assumes "i < length xs"
  shows "cummax xs ! i = Max (set (take (Suc i) xs))"
proof (cases xs)
  case Nil
  with assms show ?thesis by simp
next
  case (Cons x rest)
  show ?thesis
  proof (cases i)
    case 0
    with Cons show ?thesis by (simp add: cummax_def)
  next
    case (Suc j)
    with assms Cons have "j < length rest" by simp
    from cummax_from_nth [OF this, of x] Cons Suc show ?thesis
      by (simp add: cummax_def)
  qed
qed

lemma set_take_Suc_image:
  "i < length xs \<Longrightarrow> set (take (Suc i) xs) = (\<lambda>j. xs ! j) ` {0..i}"
  using nth_image [of "Suc i" xs] by (simp add: atLeastLessThanSuc_atLeastAtMost)

lemma cummax_normalized:
  assumes "i < length curve"
  shows "cummax (map (\<lambda>e. e / curve ! 0) curve) ! i = spec_peak curve i"
proof -
  have "set (take (Suc i) (map (\<lambda>e. e / curve ! 0) curve)) =
        (\<lambda>j. map (\<lambda>e. e / curve ! 0) curve ! j) ` {0..i}"
    using assms by (intro set_take_Suc_image) simp
  also have "\<dots> = spec_normalized curve ` {0..i}"
    using assms by (intro image_cong) (auto simp: spec_normalized_def)
  finally show ?thesis
    using assms by (simp add: cummax_nth spec_peak_def)
qed

lemma drawdown_series:
  "map (\<lambda>(c, p). (c - p) / p)
       (zip (map (\<lambda>e. e / curve ! 0) curve) (cummax (map (\<lambda>e. e / curve ! 0) curve)))
   = map (spec_drawdown curve) [0..<length curve]"
proof (rule nth_equalityI)
  show "length (map (\<lambda>(c, p). (c - p) / p)
       (zip (map (\<lambda>e. e / curve ! 0) curve) (cummax (map (\<lambda>e. e / curve ! 0) curve))))
     = length (map (spec_drawdown curve) [0..<length curve])"
    by simp
next
  fix i
  assume "i < length (map (\<lambda>(c, p). (c - p) / p)
       (zip (map (\<lambda>e. e / curve ! 0) curve) (cummax (map (\<lambda>e. e / curve ! 0) curve))))"
  then have i: "i < length curve" by simp
  then show "map (\<lambda>(c, p). (c - p) / p)
       (zip (map (\<lambda>e. e / curve ! 0) curve) (cummax (map (\<lambda>e. e / curve ! 0) curve))) ! i
     = map (spec_drawdown curve) [0..<length curve] ! i"
    by (simp add: cummax_normalized spec_drawdown_def spec_normalized_def)
qed

lemma fold_min_Min: "fold min xs (x::real) = Min (set (x # xs))"
  by (rule Min.set_eq_fold [symmetric])

lemma stop_nonempty:
  assumes "curve \<noteq> []" "curve ! 0 \<noteq> 0"
  shows "stop curve = Inr (spec_max_drawdown_pct curve)"
proof -
  from assms(1) obtain e0 rest where c: "curve = e0 # rest" by (cases curve) auto
  let ?dd = "map (spec_drawdown curve) [0..<length curve]"
  from c have "?dd \<noteq> []" by simp
  then obtain x xs where dd: "?dd = x # xs" by (cases ?dd) auto
  have "set ?dd = spec_drawdown curve ` {0..<length curve}" by simp
  with dd have m: "fold min xs x * 100 = spec_max_drawdown_pct curve"
    by (simp only: fold_min_Min spec_max_drawdown_pct_def)
  have "stop curve = (case ?dd of [] \<Rightarrow> Inl NonFinite | x # xs \<Rightarrow> Inr (fold min xs x * 100))"
    using assms c drawdown_series [of curve] by (simp add: stop_def Let_def)
  with dd m show ?thesis by simp
qed

text \<open>
  Claim C4. \<^verbatim>\<open>stop\<close> computes the maximum drawdown as the specification words it:
  every sample divided by the first, the running maximum of that up to each index as the
  peak, \<open>(normalised - peak) / peak\<close> as the drawdown at each index, and the least drawdown
  times 100. This holds on every curve with a non-zero first sample; an empty curve raises
  \<^verbatim>\<open>IndexError\<close>, and a first sample of zero gives \<^verbatim>\<open>nan\<close>.
\<close>

theorem stop_is_spec_drawdown:
  "stop curve =
     (if curve = [] then Inl IndexError
      else if curve ! 0 = 0 then Inl NonFinite
      else Inr (spec_max_drawdown_pct curve))"
proof (cases curve)
  case Nil
  then show ?thesis by (simp add: stop_def)
next
  case (Cons e0 rest)
  show ?thesis
  proof (cases "e0 = 0")
    case True
    with Cons show ?thesis by (simp add: stop_def)
  next
    case False
    with Cons stop_nonempty [of curve] show ?thesis by simp
  qed
qed

theorem stop_is_spec_drawdown_witness:
  "stop [100, 120, 90, 130] = Inr (- 25) \<and> spec_max_drawdown_pct [100, 120, 90, 130] = - 25"
  using stop_is_spec_drawdown [of "[100, 120, 90, 130]"]
  by (simp add: stop_def cummax_def)

lemma first_positive:
  assumes "i < length curve" "\<forall>e\<in>set curve. 0 < e"
  shows "0 < curve ! 0" "0 < curve ! i"
proof -
  from assms(1) have "0 < length curve" by (cases curve) simp_all
  then have "curve ! 0 \<in> set curve" by (rule nth_mem)
  with assms(2) show "0 < curve ! 0" by blast
  from assms(1) have "curve ! i \<in> set curve" by (rule nth_mem)
  with assms(2) show "0 < curve ! i" by blast
qed

lemma spec_peak_bounds:
  assumes "i < length curve" "\<forall>e\<in>set curve. 0 < e"
  shows "spec_normalized curve i \<le> spec_peak curve i" "1 \<le> spec_peak curve i"
    "0 < spec_normalized curve i"
proof -
  have fin: "finite (spec_normalized curve ` {0..i})" by simp
  have "spec_normalized curve i \<in> spec_normalized curve ` {0..i}" by simp
  then show "spec_normalized curve i \<le> spec_peak curve i"
    unfolding spec_peak_def by (rule Max_ge [OF fin])
  note pos0 = first_positive(1) [OF assms]
  then have "spec_normalized curve 0 = 1" by (simp add: spec_normalized_def)
  moreover have "spec_normalized curve 0 \<in> spec_normalized curve ` {0..i}" by simp
  then have "spec_normalized curve 0 \<le> spec_peak curve i"
    unfolding spec_peak_def by (rule Max_ge [OF fin])
  ultimately show "1 \<le> spec_peak curve i" by simp
  from first_positive(2) [OF assms] pos0 show "0 < spec_normalized curve i" by (simp add: spec_normalized_def)
qed

lemma spec_drawdown_bounds:
  assumes "i < length curve" "\<forall>e\<in>set curve. 0 < e"
  shows "- 1 \<le> spec_drawdown curve i \<and> spec_drawdown curve i \<le> 0"
proof -
  note b = spec_peak_bounds [OF assms]
  from b(2) have p: "0 < spec_peak curve i" by simp
  have "spec_drawdown curve i = spec_normalized curve i / spec_peak curve i - 1"
    using p by (simp add: spec_drawdown_def diff_divide_distrib)
  moreover have "0 \<le> spec_normalized curve i / spec_peak curve i"
    using b(3) p by simp
  moreover have "spec_normalized curve i / spec_peak curve i \<le> 1"
    using b(1) p by simp
  ultimately show ?thesis by simp
qed

lemma spec_peak_sorted:
  assumes "i < length curve" "\<forall>e\<in>set curve. 0 < e" "sorted curve"
  shows "spec_peak curve i = spec_normalized curve i"
proof -
  note pos0 = first_positive(1) [OF assms(1,2)]
  have le: "spec_normalized curve j \<le> spec_normalized curve i" if "j \<in> {0..i}" for j
  proof -
    from that assms(1) have "j \<le> i" "i < length curve" by simp_all
    with assms(3) have "curve ! j \<le> curve ! i" by (simp add: sorted_nth_mono)
    with pos0 show ?thesis
      by (simp add: spec_normalized_def divide_right_mono)
  qed
  show ?thesis
    unfolding spec_peak_def
    by (rule Max_eqI) (auto simp: le)
qed

lemma spec_max_drawdown_bounds:
  assumes "curve \<noteq> []" "\<forall>e\<in>set curve. 0 < e"
  shows "- 100 \<le> spec_max_drawdown_pct curve \<and> spec_max_drawdown_pct curve \<le> 0"
proof -
  let ?D = "spec_drawdown curve ` {0..<length curve}"
  from assms(1) have ne: "?D \<noteq> {}" by simp
  have fin: "finite ?D" by simp
  from Min_in [OF fin ne] obtain i where "i < length curve" "Min ?D = spec_drawdown curve i"
    by auto
  with spec_drawdown_bounds [OF _ assms(2), of i] show ?thesis
    by (simp add: spec_max_drawdown_pct_def)
qed

lemma spec_max_drawdown_sorted:
  assumes "curve \<noteq> []" "\<forall>e\<in>set curve. 0 < e" "sorted curve"
  shows "spec_max_drawdown_pct curve = 0"
proof -
  let ?D = "spec_drawdown curve ` {0..<length curve}"
  from assms(1) have ne: "?D \<noteq> {}" by simp
  have fin: "finite ?D" by simp
  from Min_in [OF fin ne] obtain i where i: "i < length curve" "Min ?D = spec_drawdown curve i"
    by auto
  from spec_peak_sorted [OF i(1) assms(2,3)] have "spec_drawdown curve i = 0"
    by (simp add: spec_drawdown_def)
  with i show ?thesis by (simp add: spec_max_drawdown_pct_def)
qed

text \<open>
  Claim C5. On a non-empty equity curve of positive samples \<^verbatim>\<open>stop\<close> returns a maximum
  drawdown between -100 and 0 percent, and 0 when the curve never decreases.
\<close>

theorem max_drawdown_range:
  assumes "curve \<noteq> []" "\<forall>e\<in>set curve. 0 < e"
  shows "\<exists>m. stop curve = Inr m \<and> - 100 \<le> m \<and> m \<le> 0 \<and> (sorted curve \<longrightarrow> m = 0)"
proof -
  from assms(1) have "0 < length curve" by simp
  from first_positive(1) [OF this assms(2)] assms(1)
  have "stop curve = Inr (spec_max_drawdown_pct curve)"
    by (intro stop_nonempty) simp_all
  with spec_max_drawdown_bounds [OF assms] spec_max_drawdown_sorted [OF assms]
  show ?thesis by simp
qed
theorem max_drawdown_range_witness:
  "[100, 120, 90, 130] \<noteq> ([]::real list) \<and> list_all (\<lambda>e. 0 < e) [100, 120, 90, 130::real] \<and>
   stop [100, 120, 90, 130] = Inr (- 25) \<and> - 100 \<le> (- 25::real) \<and> (- 25::real) \<le> 0 \<and>
   sorted [100, 110, 110::real] \<and> stop [100, 110, 110] = Inr 0"
  using max_drawdown_range [of "[100, 120, 90, 130]"] max_drawdown_range [of "[100, 110, 110]"]
  by (simp add: stop_def cummax_def)

end
